theory Spec2Isabelle
  imports Complex_Main
begin

section \<open>Python values the tracker relies on\<close>

text \<open>
  Exceptions of the Python runtime and of the module itself, as values. The string carried
  by a constructor is the message (for \<open>NameError\<close> and \<open>UnboundLocalError\<close> the name that
  could not be resolved, for \<open>KeyError\<close> the missing key, for \<open>AttributeError\<close> the
  attribute). \<open>NoRouteError\<close> is the only exception class the module declares.
\<close>

datatype error =
    NoRouteError string
  | KeyError string
  | NameError string
  | UnboundLocalError string
  | IndexError string
  | TypeError string
  | ValueError string
  | AttributeError string
  | URLError string
  | ParseError string

text \<open>\<open>str\<close> on a Python \<open>int\<close>: the decimal digits, with a leading minus sign below zero.\<close>

fun digits :: "nat \<Rightarrow> string" where
  "digits n = (if n < 10 then [''0123456789'' ! n]
               else digits (n div 10) @ [''0123456789'' ! (n mod 10)])"

declare digits.simps [simp del]

definition str_int :: "int \<Rightarrow> string" where
  "str_int i = (if i < 0 then CHR ''-'' # digits (nat (- i)) else digits (nat i))"

text \<open>
  \<open>float\<close> applied to the result of \<open>Element.get\<close>: \<open>None\<close> is a \<open>TypeError\<close>, a string
  that is no float literal a \<open>ValueError\<close>. Reading the literal is the parameter \<open>conv\<close>,
  and the type \<open>'f\<close> of its values is left open: the constructor only stores them.
\<close>

definition float_py :: "(string \<Rightarrow> 'f option) \<Rightarrow> string option \<Rightarrow> error + 'f" where
  "float_py conv x =
     (case x of
        None \<Rightarrow> Inl (TypeError ''float() argument must be a string or a number'')
      | Some s \<Rightarrow> (case conv s of
                    None \<Rightarrow> Inl (ValueError (''could not convert string to float: '' @ s))
                  | Some v \<Rightarrow> Inr v))"

section \<open>Python floats and their rendering\<close>

text \<open>
  A Python \<open>float\<close> is an IEEE 754 double: a finite value, given by its sign and its
  magnitude (so that \<open>-0.0\<close> differs from \<open>0.0\<close>), an infinity or a NaN. The magnitude is kept
  as the rational number it is.
\<close>

datatype double = Finite bool rat | Infinity bool | NaN

definition pow :: "rat \<Rightarrow> int \<Rightarrow> rat" where
  "pow b e = (if 0 \<le> e then b ^ nat e else 1 / b ^ nat (- e))"

text \<open>
  The exponent \<open>e\<close> with \<open>b ^ e \<le> q < b ^ (e + 1)\<close>, searched from 0 in at most \<open>fuel\<close>
  steps. The doubles lie between \<open>2 ^ -1074\<close> and \<open>2 ^ 1024\<close>, that is between \<open>10 ^ -324\<close>
  and \<open>10 ^ 309\<close>.
\<close>

fun exponent_of :: "rat \<Rightarrow> nat \<Rightarrow> rat \<Rightarrow> int" where
  "exponent_of b 0 q = 0"
| "exponent_of b (Suc fuel) q =
     (if b \<le> q then exponent_of b fuel (q / b) + 1
      else if q < 1 then exponent_of b fuel (q * b) - 1
      else 0)"

definition round_half_even :: "rat \<Rightarrow> int" where
  "round_half_even q =
     (let f = \<lfloor>q\<rfloor>; r = q - of_int f
      in if r < 1 / 2 then f else if 1 / 2 < r then f + 1 else if even f then f else f + 1)"

text \<open>
  Rounding a non-negative rational to the nearest double, ties to the even mantissa: 53
  bits of mantissa, no exponent below that of the subnormal numbers, and \<open>None\<close> for a
  result beyond the largest double (overflow).
\<close>

definition nearest_double :: "rat \<Rightarrow> rat option" where
  "nearest_double q =
     (let e = exponent_of 2 1100 q;
          p = max (e - 52) (- 1074);
          v = of_int (round_half_even (q / pow 2 p)) * pow 2 p
      in if pow 2 1024 \<le> v then None else Some v)"

text \<open>
  The value of a float literal with the digits \<open>d\<close> and the decimal exponent \<open>e\<close>, such as
  \<open>43.6532\<close> with the digits 436532 and the exponent -4, and unary minus on floats.
\<close>

definition float_literal :: "nat \<Rightarrow> int \<Rightarrow> double" where
  "float_literal d e =
     (case nearest_double (of_nat d * pow 10 e) of
        None \<Rightarrow> Infinity False
      | Some v \<Rightarrow> Finite False v)"

fun neg :: "double \<Rightarrow> double" where
  "neg (Finite s v) = Finite (\<not> s) v"
| "neg (Infinity s) = Infinity (\<not> s)"
| "neg NaN = NaN"

text \<open>
  \<open>str\<close> on a float is its \<open>repr\<close>: the shortest decimal numeral that reads back as the
  same double and, among those, the one nearest to it. \<open>shortest\<close> tries 1 to 16
  significant digits, the candidates being the two decimals \<open>lo * 10 ^ e\<close> and
  \<open>hi * 10 ^ e\<close> around \<open>x\<close>, and falls back on 17 digits, which always suffice.
\<close>

fun shortest :: "nat \<Rightarrow> rat \<Rightarrow> int \<Rightarrow> int \<times> int" where
  "shortest 0 x e = (round_half_even (x / pow 10 e), e)"
| "shortest (Suc fuel) x e =
     (let lo = \<lfloor>x / pow 10 e\<rfloor>; hi = lo + 1;
          ok_lo = (nearest_double (of_int lo * pow 10 e) = Some x);
          ok_hi = (nearest_double (of_int hi * pow 10 e) = Some x)
      in if ok_lo \<and> (\<not> ok_hi \<or> x - of_int lo * pow 10 e \<le> of_int hi * pow 10 e - x)
         then (lo, e)
         else if ok_hi then (hi, e)
         else shortest fuel x (e - 1))"

fun strip_zeros :: "nat \<Rightarrow> int \<times> int \<Rightarrow> int \<times> int" where
  "strip_zeros 0 de = de"
| "strip_zeros (Suc fuel) (d, e) =
     (if d \<noteq> 0 \<and> d mod 10 = 0 then strip_zeros fuel (d div 10, e + 1) else (d, e))"

text \<open>
  The layout of the digits \<open>ds\<close> with the decimal point after the first \<open>decpt\<close> of them:
  exponent notation when \<open>decpt\<close> is at most -4 or above 16, with a sign and at least two
  digits of exponent, and positional notation with at least one digit after the point
  otherwise.
\<close>

definition format_digits :: "string \<Rightarrow> int \<Rightarrow> string" where
  "format_digits ds decpt =
     (if decpt \<le> - 4 \<or> 16 < decpt then
        [hd ds] @ (if tl ds = [] then [] else CHR ''.'' # tl ds) @ ''e''
        @ (if decpt - 1 < 0 then ''-'' else ''+'')
        @ (if \<bar>decpt - 1\<bar> < 10 then ''0'' else []) @ digits (nat \<bar>decpt - 1\<bar>)
      else if decpt \<le> 0 then ''0.'' @ replicate (nat (- decpt)) CHR ''0'' @ ds
      else if int (length ds) \<le> decpt then
        ds @ replicate (nat (decpt - int (length ds))) CHR ''0'' @ ''.0''
      else take (nat decpt) ds @ ''.'' @ drop (nat decpt) ds)"

definition repr_finite :: "rat \<Rightarrow> string" where
  "repr_finite x =
     (if x = 0 then ''0.0''
      else (let (d, e) = strip_zeros 17 (shortest 16 x (exponent_of 10 400 x));
                ds = digits (nat d)
            in format_digits ds (int (length ds) + e)))"

fun str_float :: "double \<Rightarrow> string" where
  "str_float (Finite s v) = (if s then ''-'' else []) @ repr_finite v"
| "str_float (Infinity s) = (if s then ''-inf'' else ''inf'')"
| "str_float NaN = ''nan''"

section \<open>Element trees\<close>

text \<open>
  An \<open>xml.etree.ElementTree.Element\<close>: its tag, its attribute dictionary, its text (which
  may be \<open>None\<close>) and its child elements in document order.
\<close>

datatype xml = Element (etag: string) (attrib: "string \<rightharpoonup> string")
  (etext: "string option") (children: "xml list")

text \<open>\<open>elem.get(key)\<close> reads the attribute dictionary and gives \<open>None\<close> for a missing key.\<close>

definition get :: "xml \<Rightarrow> string \<Rightarrow> string option" where
  "get elem key = attrib elem key"

text \<open>\<open>elem.attrib[key]\<close> raises \<open>KeyError\<close> for a missing key.\<close>

definition getitem :: "xml \<Rightarrow> string \<Rightarrow> error + string" where
  "getitem elem key = (case attrib elem key of None \<Rightarrow> Inl (KeyError key) | Some v \<Rightarrow> Inr v)"

text \<open>\<open>elem.findall(name)\<close> with a plain tag name: the direct children with that tag.\<close>

definition findall :: "string \<Rightarrow> xml \<Rightarrow> xml list" where
  "findall t elem = filter (\<lambda>c. etag c = t) (children elem)"

text \<open>\<open>elem.find(name)\<close>: the first such child, or \<open>None\<close>.\<close>

definition find_elem :: "string \<Rightarrow> xml \<Rightarrow> xml option" where
  "find_elem t elem = (case findall t elem of [] \<Rightarrow> None | c # _ \<Rightarrow> Some c)"

text \<open>\<open>elem[i]\<close> for a non-negative index: \<open>IndexError\<close> beyond the last child.\<close>

definition child :: "xml \<Rightarrow> nat \<Rightarrow> error + xml" where
  "child elem i = (if i < length (children elem) then Inr (children elem ! i)
                   else Inl (IndexError ''child index out of range''))"

section \<open>BusStop and BusRoute\<close>

text \<open>
  The attributes \<open>_tag\<close> and \<open>_id\<close> of the class are the fields \<open>priv_tag\<close> and \<open>priv_id\<close>
  (an identifier cannot start with an underscore here).
\<close>

record 'f BusStop =
  priv_tag :: "string option"
  priv_id :: "string option"
  intersection :: "string option"
  coordinates :: "'f \<times> 'f"
  route :: string

definition BusStop_init ::
  "string \<Rightarrow> string option \<Rightarrow> string option \<Rightarrow> 'f \<times> 'f \<Rightarrow> string option \<Rightarrow> 'f BusStop" where
  "BusStop_init rt stop_id isect coords tg =
     \<lparr>priv_tag = tg, priv_id = stop_id, intersection = isect, coordinates = coords, route = rt\<rparr>"

text \<open>
  A \<open>BusRoute\<close> object. A directional attribute that was never assigned is \<open>None\<close> here:
  the object has no such attribute. Once assigned it is \<open>Some\<close> of a list.
\<close>

record 'f BusRoute =
  number :: int
  bus_stops :: "'f BusStop list"
  name :: string
  north_stops :: "'f BusStop list option"
  south_stops :: "'f BusStop list option"
  east_stops :: "'f BusStop list option"
  west_stops :: "'f BusStop list option"

section \<open>BusRoute.__init__\<close>

text \<open>
  The request URL of the route configuration feed.
\<close>

definition routeConfig_url :: "int \<Rightarrow> string" where
  "routeConfig_url route_no =
     ''http://webservices.nextbus.com/service/''
     @ ''publicXMLFeed?command=routeConfig&a=ttc&r=''
     @ str_int route_no"

text \<open>
  The state of the constructor while it runs: the object under construction and the local
  variable \<open>stop\<close>, which is unbound (\<open>None\<close>) until the first iteration of the loop over
  the \<open>stop\<close> children of a \<open>route\<close> element and keeps its last value afterwards.
\<close>

type_synonym 'f init_state = "'f BusRoute \<times> xml option"

text \<open>
  \<open>for stop in route.findall('stop')\<close>: one \<open>BusStop\<close> is appended per element. The
  arguments of the call are evaluated left to right, so \<open>lat\<close> is converted before \<open>lon\<close>.
\<close>

fun stops_loop :: "(string \<Rightarrow> 'f option) \<Rightarrow> xml list \<Rightarrow> 'f init_state \<Rightarrow> error + 'f init_state" where
  "stops_loop conv [] st = Inr st"
| "stops_loop conv (stop # rest) (self, previous) =
     (case float_py conv (get stop ''lat'') of
        Inl e \<Rightarrow> Inl e
      | Inr lat \<Rightarrow>
          (case float_py conv (get stop ''lon'') of
             Inl e \<Rightarrow> Inl e
           | Inr lon \<Rightarrow>
               stops_loop conv rest
                 (self\<lparr>bus_stops := bus_stops self @
                    [BusStop_init (name self) (get stop ''stopId'') (get stop ''title'')
                       (lat, lon) (get stop ''tag'')]\<rparr>,
                  Some stop)))"

text \<open>
  \<open>for bus_stop in self.bus_stops\<close>, the innermost loop of each of the four branches. The
  comparison reads the local variable \<open>stop\<close>, not the loop variable \<open>tag\<close> of the
  enclosing loop; reading it while it is unbound raises \<open>UnboundLocalError\<close>.
\<close>

fun bus_stop_loop :: "xml option \<Rightarrow> 'f BusStop list \<Rightarrow> 'f BusStop list \<Rightarrow> error + 'f BusStop list" where
  "bus_stop_loop stop [] acc = Inr acc"
| "bus_stop_loop stop (bus_stop # rest) acc =
     (case stop of
        None \<Rightarrow> Inl (UnboundLocalError ''stop'')
      | Some s \<Rightarrow>
          bus_stop_loop stop rest
            (if get s ''tag'' = priv_tag bus_stop then acc @ [bus_stop] else acc))"

text \<open>\<open>for tag in direction.findall("stop")\<close>: the inner loop runs once per reference.\<close>

fun tag_loop ::
  "xml option \<Rightarrow> 'f BusStop list \<Rightarrow> xml list \<Rightarrow> 'f BusStop list \<Rightarrow> error + 'f BusStop list" where
  "tag_loop stop all_stops [] acc = Inr acc"
| "tag_loop stop all_stops (tag # rest) acc =
     (case bus_stop_loop stop all_stops acc of
        Inl e \<Rightarrow> Inl e
      | Inr acc' \<Rightarrow> tag_loop stop all_stops rest acc')"

text \<open>
  The body of \<open>for direction in route.findall("direction")\<close>. \<open>title[0]\<close> raises
  \<open>TypeError\<close> when the attribute is missing and \<open>IndexError\<close> when it is empty. The
  branches are tested in the order of the source: N, E, S, and west for everything else.
  Each branch first assigns a fresh list to its attribute and then fills it.
\<close>

definition direction_body :: "xml \<Rightarrow> 'f init_state \<Rightarrow> error + 'f init_state" where
  "direction_body direction st =
     (case st of (self, stop) \<Rightarrow>
        (case get direction ''title'' of
           None \<Rightarrow> Inl (TypeError ''NoneType object is not subscriptable'')
         | Some [] \<Rightarrow> Inl (IndexError ''string index out of range'')
         | Some (orientation # _) \<Rightarrow>
             if orientation = CHR ''N'' then
               (case tag_loop stop (bus_stops self) (findall ''stop'' direction) [] of
                  Inl e \<Rightarrow> Inl e
                | Inr found \<Rightarrow> Inr (self\<lparr>north_stops := Some found\<rparr>, stop))
             else if orientation = CHR ''E'' then
               (case tag_loop stop (bus_stops self) (findall ''stop'' direction) [] of
                  Inl e \<Rightarrow> Inl e
                | Inr found \<Rightarrow> Inr (self\<lparr>east_stops := Some found\<rparr>, stop))
             else if orientation = CHR ''S'' then
               (case tag_loop stop (bus_stops self) (findall ''stop'' direction) [] of
                  Inl e \<Rightarrow> Inl e
                | Inr found \<Rightarrow> Inr (self\<lparr>south_stops := Some found\<rparr>, stop))
             else
               (case tag_loop stop (bus_stops self) (findall ''stop'' direction) [] of
                  Inl e \<Rightarrow> Inl e
                | Inr found \<Rightarrow> Inr (self\<lparr>west_stops := Some found\<rparr>, stop))))"

fun directions_loop :: "xml list \<Rightarrow> 'f init_state \<Rightarrow> error + 'f init_state" where
  "directions_loop [] st = Inr st"
| "directions_loop (direction # rest) st =
     (case direction_body direction st of
        Inl e \<Rightarrow> Inl e
      | Inr st' \<Rightarrow> directions_loop rest st')"

text \<open>\<open>for route in _doc.findall('route')\<close>: first the stops of the route, then its directions.\<close>

fun routes_loop :: "(string \<Rightarrow> 'f option) \<Rightarrow> xml list \<Rightarrow> 'f init_state \<Rightarrow> error + 'f init_state" where
  "routes_loop conv [] st = Inr st"
| "routes_loop conv (rt # rest) st =
     (case stops_loop conv (findall ''stop'' rt) st of
        Inl e \<Rightarrow> Inl e
      | Inr st' \<Rightarrow>
          (case directions_loop (findall ''direction'' rt) st' of
             Inl e \<Rightarrow> Inl e
           | Inr st'' \<Rightarrow> routes_loop conv rest st''))"

text \<open>
  The handler of \<open>except KeyError\<close>. It builds the message from the name \<open>route_name\<close>,
  which is bound nowhere (the parameter is \<open>route_no\<close>, the attribute \<open>self.number\<close>), so
  evaluating the message raises \<open>NameError\<close> and the \<open>raise NoRouteError(error)\<close> below it
  is never reached.
\<close>

definition title_handler :: "int \<Rightarrow> error" where
  "title_handler route_no = NameError ''route_name''"

text \<open>
  The constructor from the parsed document on. \<open>_doc.getroot()[0]\<close> raises \<open>IndexError\<close>
  on a root without children, which the \<open>try\<close> does not catch; a missing \<open>title\<close> is the
  \<open>KeyError\<close> it does catch.
\<close>

definition BusRoute_parse :: "(string \<Rightarrow> 'f option) \<Rightarrow> int \<Rightarrow> xml \<Rightarrow> error + 'f BusRoute" where
  "BusRoute_parse conv route_no doc =
     (case child doc 0 of
        Inl e \<Rightarrow> Inl e
      | Inr first \<Rightarrow>
          (case getitem first ''title'' of
             Inl (KeyError k) \<Rightarrow> Inl (title_handler route_no)
           | Inl e \<Rightarrow> Inl e
           | Inr title \<Rightarrow>
               (case routes_loop conv (findall ''route'' doc)
                       (\<lparr>number = route_no, bus_stops = [], name = title,
                         north_stops = None, south_stops = None,
                         east_stops = None, west_stops = None\<rparr>, None) of
                  Inl e \<Rightarrow> Inl e
                | Inr (self, stop) \<Rightarrow> Inr self)))"

text \<open>
  The whole constructor. Fetching the URL, writing the bytes to \<open>rt<number>.xml\<close> and
  parsing that file is the parameter \<open>fetch\<close>: it gives the parsed tree or the error of
  the network or of the parser.
\<close>

definition BusRoute_init ::
  "(string \<Rightarrow> 'f option) \<Rightarrow> (string \<Rightarrow> error + xml) \<Rightarrow> int \<Rightarrow> error + 'f BusRoute" where
  "BusRoute_init conv fetch route_no =
     (case fetch (routeConfig_url route_no) of
        Inl e \<Rightarrow> Inl e
      | Inr doc \<Rightarrow> BusRoute_parse conv route_no doc)"

text \<open>Reading a directional attribute of a constructed object.\<close>

definition getattr :: "string \<Rightarrow> 'a option \<Rightarrow> error + 'a" where
  "getattr attr_name slot = (case slot of None \<Rightarrow> Inl (AttributeError attr_name) | Some v \<Rightarrow> Inr v)"

section \<open>GMapsRoute\<close>

text \<open>
  The request URL of the distance matrix lookup. \<open>str\<close> is the builtin of that name on the
  type \<open>'c\<close> of a coordinate; a point is a pair, \<open>point[0]\<close> its first and \<open>point[1]\<close> its
  second component.
\<close>

definition GMapsRoute_url :: "('c \<Rightarrow> string) \<Rightarrow> 'c \<times> 'c \<Rightarrow> 'c \<times> 'c \<Rightarrow> string \<Rightarrow> string" where
  "GMapsRoute_url str point_A point_B key =
     (let origin = str (fst point_A) @ '','' @ str (snd point_A);
          destination = str (fst point_B) @ '','' @ str (snd point_B)
      in ''https://maps.googleapis.com/maps/api/distancematrix/xml?''
         @ ''origins='' @ origin
         @ ''&destinations='' @ destination
         @ ''&mode=transit''
         @ ''&key='' @ key)"

text \<open>
  \<open>parse(file_name).find('row')[0][i][1].text\<close>: subscripting the \<open>None\<close> that \<open>find\<close>
  gives without a \<open>row\<close> child is a \<open>TypeError\<close>, each index beyond the children an
  \<open>IndexError\<close>.
\<close>

definition row_text :: "xml \<Rightarrow> nat \<Rightarrow> error + string option" where
  "row_text doc i =
     (case find_elem ''row'' doc of
        None \<Rightarrow> Inl (TypeError ''NoneType object is not subscriptable'')
      | Some row \<Rightarrow>
          (case child row 0 of
             Inl e \<Rightarrow> Inl e
           | Inr element \<Rightarrow>
               (case child element i of
                  Inl e \<Rightarrow> Inl e
                | Inr field \<Rightarrow>
                    (case child field 1 of
                       Inl e \<Rightarrow> Inl e
                     | Inr leaf \<Rightarrow> Inr (etext leaf)))))"

text \<open>
  The function itself. As for the constructor, \<open>fetch\<close> stands for opening the URL, writing
  \<open>map.xml\<close> and parsing it; the file is parsed once for each of the two fields.
\<close>

definition GMapsRoute ::
  "('c \<Rightarrow> string) \<Rightarrow> (string \<Rightarrow> error + xml) \<Rightarrow> 'c \<times> 'c \<Rightarrow> 'c \<times> 'c \<Rightarrow> string
     \<Rightarrow> error + (string option \<times> string option)" where
  "GMapsRoute str fetch point_A point_B key =
     (case fetch (GMapsRoute_url str point_A point_B key) of
        Inl e \<Rightarrow> Inl e
      | Inr doc \<Rightarrow>
          (case row_text doc 1 of
             Inl e \<Rightarrow> Inl e
           | Inr time \<Rightarrow>
               (case row_text doc 2 of
                  Inl e \<Rightarrow> Inl e
                | Inr distance \<Rightarrow> Inr (distance, time))))"

section \<open>Notions used in the statements\<close>

text \<open>Reading a decimal numeral back: the inverse that makes \<open>str_int\<close> a decimal rendering.\<close>

definition digit_value :: "char \<Rightarrow> nat" where
  "digit_value c = of_char c - 48"

definition read_digits :: "string \<Rightarrow> nat" where
  "read_digits s = foldl (\<lambda>acc c. 10 * acc + digit_value c) 0 s"

definition read_decimal :: "string \<Rightarrow> int" where
  "read_decimal s = (if s \<noteq> [] \<and> hd s = CHR ''-'' then - int (read_digits (tl s))
                     else int (read_digits s))"

text \<open>The elements the constructor visits, in the order in which it visits them.\<close>

definition stop_elements :: "xml \<Rightarrow> xml list" where
  "stop_elements doc = concat (map (findall ''stop'') (findall ''route'' doc))"

definition direction_elements :: "xml \<Rightarrow> xml list" where
  "direction_elements doc = concat (map (findall ''direction'') (findall ''route'' doc))"

text \<open>The first character of the title of a direction element, when there is one.\<close>

definition orientation_of :: "xml \<Rightarrow> char option" where
  "orientation_of direction =
     (case get direction ''title'' of None \<Rightarrow> None | Some [] \<Rightarrow> None | Some (c # _) \<Rightarrow> Some c)"

text \<open>A \<open>BusStop\<close> is built from a \<open>stop\<close> element for the route called \<open>rt\<close>.\<close>

definition built_from :: "(string \<Rightarrow> 'f option) \<Rightarrow> string \<Rightarrow> xml \<Rightarrow> 'f BusStop \<Rightarrow> bool" where
  "built_from conv rt elem b \<longleftrightarrow>
     route b = rt \<and> priv_id b = get elem ''stopId'' \<and> intersection b = get elem ''title''
     \<and> float_py conv (get elem ''lat'') = Inr (fst (coordinates b))
     \<and> float_py conv (get elem ''lon'') = Inr (snd (coordinates b))
     \<and> priv_tag b = get elem ''tag''"

text \<open>The stops held by a directional attribute; none when the attribute does not exist.\<close>

definition stops_of :: "'a list option \<Rightarrow> 'a set" where
  "stops_of slot = (case slot of None \<Rightarrow> {} | Some l \<Rightarrow> set l)"

text \<open>Every stop of a directional collection is in the full collection.\<close>

definition directional_in_full :: "'f BusRoute \<Rightarrow> bool" where
  "directional_in_full self \<longleftrightarrow>
     stops_of (north_stops self) \<union> stops_of (south_stops self)
       \<union> stops_of (east_stops self) \<union> stops_of (west_stops self) \<subseteq> set (bus_stops self)"

definition west_letter :: "char \<Rightarrow> bool" where
  "west_letter c \<longleftrightarrow> c \<noteq> CHR ''N'' \<and> c \<noteq> CHR ''S'' \<and> c \<noteq> CHR ''E''"

text \<open>
  The directional attributes that exist after the directions \<open>ds\<close> have been processed,
  starting from the object \<open>self\<close>.
\<close>

definition assigned_after :: "'f BusRoute \<Rightarrow> xml list \<Rightarrow> 'f BusRoute \<Rightarrow> bool" where
  "assigned_after self ds self' \<longleftrightarrow>
     (north_stops self' \<noteq> None) =
        (north_stops self \<noteq> None \<or> (\<exists>d \<in> set ds. orientation_of d = Some CHR ''N''))
   \<and> (south_stops self' \<noteq> None) =
        (south_stops self \<noteq> None \<or> (\<exists>d \<in> set ds. orientation_of d = Some CHR ''S''))
   \<and> (east_stops self' \<noteq> None) =
        (east_stops self \<noteq> None \<or> (\<exists>d \<in> set ds. orientation_of d = Some CHR ''E''))
   \<and> (west_stops self' \<noteq> None) =
        (west_stops self \<noteq> None \<or> (\<exists>d \<in> set ds. \<exists>c. orientation_of d = Some c \<and> west_letter c))"

section \<open>Sample documents\<close>

text \<open>
  The feed of route 23: two stops tagged 1001 and 1002 and one northbound direction that
  refers to the stop tagged 1001.
\<close>

definition stop_1001 :: xml where
  "stop_1001 = Element ''stop''
     [''tag'' \<mapsto> ''1001'', ''title'' \<mapsto> ''Main Street Station'', ''lat'' \<mapsto> ''43.6890'',
      ''lon'' \<mapsto> ''-79.3016'', ''stopId'' \<mapsto> ''14001''] None []"

definition stop_1002 :: xml where
  "stop_1002 = Element ''stop''
     [''tag'' \<mapsto> ''1002'', ''title'' \<mapsto> ''Dawes Rd At Victoria Park Ave'', ''lat'' \<mapsto> ''43.7061'',
      ''lon'' \<mapsto> ''-79.2958'', ''stopId'' \<mapsto> ''14002''] None []"

definition north_direction :: xml where
  "north_direction = Element ''direction''
     [''tag'' \<mapsto> ''23_0_23'', ''title'' \<mapsto> ''North - 23 Dawes towards St Clair''] None
     [Element ''stop'' [''tag'' \<mapsto> ''1001''] None []]"

definition dawes_feed :: xml where
  "dawes_feed = Element ''body'' Map.empty None
     [Element ''route'' [''tag'' \<mapsto> ''23'', ''title'' \<mapsto> ''23-Dawes''] None
        [stop_1001, stop_1002, north_direction]]"

text \<open>The answer of the feed to a route number it does not know.\<close>

definition error_feed :: xml where
  "error_feed = Element ''body'' Map.empty None
     [Element ''Error'' [''shouldRetry'' \<mapsto> ''false'']
        (Some ''Could not get route 999 for agency tag ttc'') []]"

text \<open>A direction whose title starts with none of N, E, S, and one without a title.\<close>

definition unknown_direction :: xml where
  "unknown_direction = Element ''direction'' [''title'' \<mapsto> ''Unknown''] None
     [Element ''stop'' [''tag'' \<mapsto> ''1002''] None []]"

definition untitled_feed :: xml where
  "untitled_feed = Element ''body'' Map.empty None
     [Element ''route'' [''tag'' \<mapsto> ''23'', ''title'' \<mapsto> ''23-Dawes''] None
        [stop_1001, Element ''direction'' [''tag'' \<mapsto> ''23_0_23''] None []]]"

text \<open>A distance matrix response with the duration 12 mins and the distance 3.4 km.\<close>

definition canned_response :: xml where
  "canned_response = Element ''DistanceMatrixResponse'' Map.empty None
     [Element ''status'' Map.empty (Some ''OK'') [],
      Element ''origin_address'' Map.empty (Some ''Toronto, ON, Canada'') [],
      Element ''destination_address'' Map.empty (Some ''East York, ON, Canada'') [],
      Element ''row'' Map.empty None
        [Element ''element'' Map.empty None
           [Element ''status'' Map.empty (Some ''OK'') [],
            Element ''duration'' Map.empty None
              [Element ''value'' Map.empty (Some ''720'') [],
               Element ''text'' Map.empty (Some ''12 mins'') []],
            Element ''distance'' Map.empty None
              [Element ''value'' Map.empty (Some ''3400'') [],
               Element ''text'' Map.empty (Some ''3.4 km'') []]]]]"

text \<open>
  The objects the constructor builds from the feed of route 23, with the coordinates kept as
  their literals: the two stops, the route after the loop over its stops, and the finished
  route.
\<close>

definition bus_stop_1001 :: "string BusStop" where
  "bus_stop_1001 = \<lparr>priv_tag = Some ''1001'', priv_id = Some ''14001'',
     intersection = Some ''Main Street Station'',
     coordinates = (''43.6890'', ''-79.3016''), route = ''23-Dawes''\<rparr>"

definition bus_stop_1002 :: "string BusStop" where
  "bus_stop_1002 = \<lparr>priv_tag = Some ''1002'', priv_id = Some ''14002'',
     intersection = Some ''Dawes Rd At Victoria Park Ave'',
     coordinates = (''43.7061'', ''-79.2958''), route = ''23-Dawes''\<rparr>"

definition dawes_stops_only :: "string BusRoute" where
  "dawes_stops_only = \<lparr>number = 23, bus_stops = [bus_stop_1001, bus_stop_1002],
     name = ''23-Dawes'', north_stops = None, south_stops = None,
     east_stops = None, west_stops = None\<rparr>"

definition dawes_route :: "string BusRoute" where
  "dawes_route = dawes_stops_only\<lparr>north_stops := Some [bus_stop_1002]\<rparr>"

section \<open>Evaluation of the sample documents\<close>

lemmas feed_defs = dawes_feed_def stop_1001_def stop_1002_def north_direction_def
  error_feed_def unknown_direction_def untitled_feed_def

lemmas elem_defs = child_def getitem_def findall_def find_elem_def get_def

lemmas route_defs = dawes_route_def dawes_stops_only_def bus_stop_1001_def bus_stop_1002_def

lemma dawes_parse: "BusRoute_parse Some 23 dawes_feed = Inr dawes_route"
  by (simp add: BusRoute_parse_def feed_defs elem_defs float_py_def
      BusStop_init_def direction_body_def route_defs)

lemma dawes_stop_elements: "stop_elements dawes_feed = [stop_1001, stop_1002]"
  by (simp add: stop_elements_def findall_def feed_defs)

lemma dawes_direction_elements: "direction_elements dawes_feed = [north_direction]"
  by (simp add: direction_elements_def findall_def feed_defs)

section \<open>The request URL of the route configuration\<close>

lemma digit_cases:
  assumes "k < (10::nat)"
  shows "k = 0 \<or> k = 1 \<or> k = 2 \<or> k = 3 \<or> k = 4 \<or> k = 5 \<or> k = 6 \<or> k = 7 \<or> k = 8 \<or> k = 9"
  using assms by arith

lemma digit_value_nth: "k < 10 \<Longrightarrow> digit_value (''0123456789'' ! k) = k"
  using digit_cases [of k] by (auto simp: digit_value_def)

lemma digit_nth_not_minus: "k < 10 \<Longrightarrow> ''0123456789'' ! k \<noteq> CHR ''-''"
  using digit_cases [of k] by auto

lemma read_digits_snoc: "read_digits (s @ [c]) = 10 * read_digits s + digit_value c"
  by (simp add: read_digits_def)

lemma read_digits_digits: "read_digits (digits n) = n"
proof (induction n rule: digits.induct)
  case (1 n)
  show ?case
  proof (cases "n < 10")
    case True
    then show ?thesis
      by (simp add: digits.simps [of n] read_digits_def digit_value_nth)
  next
    case False
    with 1 have "read_digits (digits (n div 10)) = n div 10" by simp
    with False show ?thesis
      by (simp add: digits.simps [of n] read_digits_snoc digit_value_nth)
  qed
qed

lemma digits_not_Nil: "digits n \<noteq> []"
  by (subst digits.simps) simp

lemma hd_digits_not_minus: "hd (digits n) \<noteq> CHR ''-''"
proof (induction n rule: digits.induct)
  case (1 n)
  show ?case
  proof (cases "n < 10")
    case True
    then show ?thesis by (simp add: digits.simps [of n] digit_nth_not_minus)
  next
    case False
    with 1 show ?thesis
      by (simp add: digits.simps [of n] digits_not_Nil)
  qed
qed

lemma read_decimal_str_int: "read_decimal (str_int i) = i"
proof (cases "i < 0")
  case True
  then show ?thesis by (simp add: str_int_def read_decimal_def read_digits_digits)
next
  case False
  obtain c cs where d: "digits (nat i) = c # cs"
    using digits_not_Nil [of "nat i"] by (cases "digits (nat i)") auto
  with hd_digits_not_minus [of "nat i"] have "c \<noteq> CHR ''-''" by simp
  moreover have "read_digits (c # cs) = nat i" using read_digits_digits [of "nat i"] d by simp
  ultimately show ?thesis using False d
    by (simp add: str_int_def read_decimal_def)
qed

text \<open>
  Claim C8. For every route number the constructor fetches one URL: the fixed path
  \<open>publicXMLFeed\<close> of the feed with the query \<open>command=routeConfig\<close>, \<open>a=ttc\<close> and \<open>r\<close> set
  to the decimal numeral of the number (reading the numeral back gives the number). No
  other URL is opened: a \<open>fetch\<close> that fails everywhere else gives the same result.
\<close>

theorem routeConfig_url_query:
  "routeConfig_url route_no =
     ''http://webservices.nextbus.com/service/publicXMLFeed''
       @ ''?command=routeConfig'' @ ''&a=ttc'' @ ''&r='' @ str_int route_no
   \<and> read_decimal (str_int route_no) = route_no
   \<and> BusRoute_init conv fetch route_no =
       BusRoute_init conv
         (\<lambda>url. if url = routeConfig_url route_no then fetch url else Inl (URLError url)) route_no"
  by (simp add: routeConfig_url_def read_decimal_str_int BusRoute_init_def)

section \<open>A feed without a route title\<close>

text \<open>
  Claim C3. The claim asks for \<open>NoRouteError\<close> with the route number in its message when
  the first child of the root has no \<open>title\<close>. On the answer of the feed to the unknown
  route 999 the constructor raises \<open>NameError\<close> for the unbound name \<open>route_name\<close>
  instead: the handler fails before it can raise \<open>NoRouteError\<close>.
\<close>

theorem missing_title_raises_NameError:
  "BusRoute_init (Some :: string \<Rightarrow> string option) (\<lambda>url. Inr error_feed) 999
     = Inl (NameError ''route_name'')"
  by (simp add: BusRoute_init_def BusRoute_parse_def error_feed_def child_def getitem_def
      title_handler_def)

section \<open>The stops of a direction\<close>

text \<open>
  Claim C1. The claim asks that the northbound collection of the feed of route 23 holds
  the stop tagged 1001, the one its direction element refers to. The constructor gives
  number 23, name 23-Dawes, both stops in the full collection and no south, east or west
  collection, but the northbound collection holds the stop tagged 1002: the comparison
  reads the variable \<open>stop\<close> left over from the loop over the stops, whose tag is that of
  the last stop of the route, and not the reference \<open>tag\<close> of the direction.
\<close>

theorem dawes_north_holds_stop_1002:
  "BusRoute_init (Some :: string \<Rightarrow> string option) (\<lambda>url. Inr dawes_feed) 23 =
     Inr \<lparr>number = 23,
          bus_stops =
            [\<lparr>priv_tag = Some ''1001'', priv_id = Some ''14001'',
              intersection = Some ''Main Street Station'',
              coordinates = (''43.6890'', ''-79.3016''), route = ''23-Dawes''\<rparr>,
             \<lparr>priv_tag = Some ''1002'', priv_id = Some ''14002'',
              intersection = Some ''Dawes Rd At Victoria Park Ave'',
              coordinates = (''43.7061'', ''-79.2958''), route = ''23-Dawes''\<rparr>],
          name = ''23-Dawes'',
          north_stops =
            Some [\<lparr>priv_tag = Some ''1002'', priv_id = Some ''14002'',
                   intersection = Some ''Dawes Rd At Victoria Park Ave'',
                   coordinates = (''43.7061'', ''-79.2958''), route = ''23-Dawes''\<rparr>],
          south_stops = None, east_stops = None, west_stops = None\<rparr>"
  by (simp add: BusRoute_init_def BusRoute_parse_def feed_defs elem_defs float_py_def
      BusStop_init_def direction_body_def)

section \<open>The request URL of the distance lookup\<close>

lemma exponent_of_numeral:
  "exponent_of b (numeral k) q =
     (if b \<le> q then exponent_of b (pred_numeral k) (q / b) + 1
      else if q < 1 then exponent_of b (pred_numeral k) (q * b) - 1
      else 0)"
  by (simp add: numeral_eq_Suc)

lemma shortest_numeral:
  "shortest (numeral k) x e =
     (let lo = \<lfloor>x / pow 10 e\<rfloor>; hi = lo + 1;
          ok_lo = (nearest_double (of_int lo * pow 10 e) = Some x);
          ok_hi = (nearest_double (of_int hi * pow 10 e) = Some x)
      in if ok_lo \<and> (\<not> ok_hi \<or> x - of_int lo * pow 10 e \<le> of_int hi * pow 10 e - x)
         then (lo, e)
         else if ok_hi then (hi, e)
         else shortest (pred_numeral k) x (e - 1))"
  by (simp add: numeral_eq_Suc)

lemma strip_zeros_numeral:
  "strip_zeros (numeral k) (d, e) =
     (if d \<noteq> 0 \<and> d mod 10 = 0 then strip_zeros (pred_numeral k) (d div 10, e + 1) else (d, e))"
  by (simp add: numeral_eq_Suc)

lemma floor_numeral_fraction:
  "\<lfloor>(numeral a / numeral b :: rat)\<rfloor> = numeral a div numeral b"
  by (metis floor_divide_of_int_eq of_int_numeral)

lemmas float_eval = nearest_double_def exponent_of_numeral pow_def round_half_even_def Let_def
  floor_numeral_fraction shortest_numeral strip_zeros_numeral float_literal_def repr_finite_def
  format_digits_def

text \<open>The doubles of the literals 43.6532 and 79.3832, and their numerals.\<close>

lemma lit_43_6532:
  "float_literal 436532 (- 4) = Finite False (1535910431668201 / 35184372088832)"
  by (simp add: float_eval)

lemma lit_79_3832:
  "float_literal 793832 (- 4) = Finite False (5586096092804337 / 70368744177664)"
  by (simp add: float_eval)

lemma repr_43_6532: "repr_finite (1535910431668201 / 35184372088832) = ''43.6532''"
  by (simp add: float_eval digits.simps split del: if_split)

lemma repr_79_3832: "repr_finite (5586096092804337 / 70368744177664) = ''79.3832''"
  by (simp add: float_eval digits.simps split del: if_split)

text \<open>
  Claim C7. Whatever \<open>str\<close> renders a coordinate, the URL carries each point as the
  rendering of its first component (the latitude), a comma and the rendering of its
  second component (the longitude), the first point after \<open>origins=\<close> and the second after
  \<open>destinations=\<close>, and this is the only URL the lookup opens. With \<open>str\<close> on floats, the
  point (43.6532, -79.3832) appears as \<open>43.6532,-79.3832\<close>.
\<close>

theorem GMapsRoute_url_points:
  "GMapsRoute_url str point_A point_B key =
     ''https://maps.googleapis.com/maps/api/distancematrix/xml?origins=''
       @ str (fst point_A) @ '','' @ str (snd point_A)
       @ ''&destinations='' @ str (fst point_B) @ '','' @ str (snd point_B)
       @ ''&mode=transit&key='' @ key
   \<and> GMapsRoute str fetch point_A point_B key =
       GMapsRoute str
         (\<lambda>url. if url = GMapsRoute_url str point_A point_B key then fetch url
                else Inl (URLError url)) point_A point_B key
   \<and> GMapsRoute_url str_float
         (float_literal 436532 (- 4), neg (float_literal 793832 (- 4)))
         (float_literal 436532 (- 4), neg (float_literal 793832 (- 4))) key =
       ''https://maps.googleapis.com/maps/api/distancematrix/xml?origins=43.6532,-79.3832''
         @ ''&destinations=43.6532,-79.3832&mode=transit&key='' @ key"
  by (simp add: GMapsRoute_url_def GMapsRoute_def lit_43_6532 lit_79_3832 repr_43_6532
      repr_79_3832)

section \<open>The distance lookup\<close>

text \<open>
  Claim C6. When the fetched document has a \<open>row\<close> child whose first child has at least
  three children, the second (the duration) and the third (the distance) each with at
  least two children, \<open>GMapsRoute\<close> returns the text of the second child of the distance
  first and the text of the second child of the duration second. For the canned response
  this is the pair of 3.4 km and 12 mins.
\<close>

theorem GMapsRoute_extracts:
  assumes "fetch (GMapsRoute_url str point_A point_B key) = Inr doc"
    and "find_elem ''row'' doc = Some row"
    and "0 < length (children row)"
    and "2 < length (children (children row ! 0))"
    and "1 < length (children (children (children row ! 0) ! 1))"
    and "1 < length (children (children (children row ! 0) ! 2))"
  shows "GMapsRoute str fetch point_A point_B key =
           Inr (etext (children (children (children row ! 0) ! 2) ! 1),
                etext (children (children (children row ! 0) ! 1) ! 1))"
  using assms by (simp add: GMapsRoute_def row_text_def child_def)

theorem GMapsRoute_extracts_witness:
  "find_elem ''row'' canned_response = Some (children canned_response ! 3)
   \<and> GMapsRoute (\<lambda>c::string. c) (\<lambda>url. Inr canned_response)
        (''43.6532'', ''-79.3832'') (''43.7061'', ''-79.2958'') ''key here''
      = Inr (Some ''3.4 km'', Some ''12 mins'')"
proof -
  let ?row = "children canned_response ! 3"
  have r: "find_elem ''row'' canned_response = Some ?row"
    by (simp add: canned_response_def find_elem_def findall_def)
  have l0: "0 < length (children ?row)"
    and l1: "2 < length (children (children ?row ! 0))"
    and l2: "1 < length (children (children (children ?row ! 0) ! 1))"
    and l3: "1 < length (children (children (children ?row ! 0) ! 2))"
    by (simp_all add: canned_response_def)
  have "GMapsRoute (\<lambda>c::string. c) (\<lambda>url. Inr canned_response)
          (''43.6532'', ''-79.3832'') (''43.7061'', ''-79.2958'') ''key here''
        = Inr (etext (children (children (children ?row ! 0) ! 2) ! 1),
               etext (children (children (children ?row ! 0) ! 1) ! 1))"
    by (rule GMapsRoute_extracts [OF refl r l0 l1 l2 l3])
  then show ?thesis using r by (simp add: canned_response_def)
qed

section \<open>The loops of the constructor\<close>

subsection \<open>The loops over the stops of a direction\<close>

lemma bus_stop_loop_Some:
  "bus_stop_loop (Some s) all_stops acc =
     Inr (acc @ filter (\<lambda>b. get s ''tag'' = priv_tag b) all_stops)"
  by (induction all_stops arbitrary: acc) auto

lemma bus_stop_loop_None:
  "bus_stop_loop None all_stops acc =
     (if all_stops = [] then Inr acc else Inl (UnboundLocalError ''stop''))"
  by (cases all_stops) auto

lemma tag_loop_Some:
  "tag_loop (Some s) all_stops refs acc =
     Inr (acc @ concat (replicate (length refs) (filter (\<lambda>b. get s ''tag'' = priv_tag b) all_stops)))"
  by (induction refs arbitrary: acc) (auto simp: bus_stop_loop_Some)

lemma tag_loop_None:
  "tag_loop None all_stops refs acc =
     (if all_stops = [] \<or> refs = [] then Inr acc else Inl (UnboundLocalError ''stop''))"
  by (induction refs arbitrary: acc) (auto simp: bus_stop_loop_None)

lemma tag_loop_subset:
  assumes "tag_loop stop all_stops refs [] = Inr found"
  shows "set found \<subseteq> set all_stops"
proof (cases stop)
  case None
  with assms show ?thesis by (auto simp: tag_loop_None split: if_splits)
next
  case (Some s)
  with assms show ?thesis by (auto simp: tag_loop_Some split: if_splits)
qed

lemma tag_loop_error:
  "tag_loop stop all_stops refs acc = Inl e \<Longrightarrow> e = UnboundLocalError ''stop''"
  by (cases stop) (auto simp: tag_loop_None tag_loop_Some split: if_splits)

subsection \<open>The body of the loop over the directions\<close>

lemma direction_body_Inr:
  assumes "direction_body direction (self, stop) = Inr (self', stop')"
  obtains c found where "orientation_of direction = Some c"
    and "tag_loop stop (bus_stops self) (findall ''stop'' direction) [] = Inr found"
    and "stop' = stop"
    and "self' = (if c = CHR ''N'' then self\<lparr>north_stops := Some found\<rparr>
                  else if c = CHR ''E'' then self\<lparr>east_stops := Some found\<rparr>
                  else if c = CHR ''S'' then self\<lparr>south_stops := Some found\<rparr>
                  else self\<lparr>west_stops := Some found\<rparr>)"
  using assms
  by (auto simp: direction_body_def orientation_of_def
      split: option.splits list.splits if_splits sum.splits)

lemma direction_body_untitled:
  assumes "orientation_of direction = None"
  shows "direction_body direction st = Inl (TypeError ''NoneType object is not subscriptable'')
       \<or> direction_body direction st = Inl (IndexError ''string index out of range'')"
  using assms
  by (cases st) (auto simp: direction_body_def orientation_of_def split: option.splits list.splits)

lemma direction_body_titled:
  assumes "orientation_of direction = Some c" and "direction_body direction st = Inl e"
  shows "e = UnboundLocalError ''stop''"
  using assms
  by (cases st) (auto simp: direction_body_def orientation_of_def
      split: option.splits list.splits if_splits sum.splits dest: tag_loop_error)


subsection \<open>The loop over the stops of a route\<close>

lemma float_py_error:
  "float_py conv x = Inl e \<Longrightarrow> (\<forall>m. e \<noteq> NoRouteError m) \<and> (\<forall>m. e \<noteq> IndexError m)
     \<and> e \<noteq> TypeError ''NoneType object is not subscriptable''"
  by (auto simp: float_py_def split: option.splits)

lemma stops_loop_Inr:
  assumes "stops_loop conv stops (self, previous) = Inr (self', stop')"
  shows "\<exists>new. self' = self\<lparr>bus_stops := bus_stops self @ new\<rparr>
           \<and> list_all2 (built_from conv (name self)) stops new"
  using assms
proof (induction stops arbitrary: self previous)
  case Nil
  then show ?case by simp
next
  case (Cons stop rest)
  from Cons.prems obtain lat lon where
    lat: "float_py conv (get stop ''lat'') = Inr lat" and
    lon: "float_py conv (get stop ''lon'') = Inr lon" and
    rest: "stops_loop conv rest
             (self\<lparr>bus_stops := bus_stops self @
                [BusStop_init (name self) (get stop ''stopId'') (get stop ''title'')
                   (lat, lon) (get stop ''tag'')]\<rparr>, Some stop) = Inr (self', stop')"
    by (auto split: sum.splits)
  let ?b = "BusStop_init (name self) (get stop ''stopId'') (get stop ''title'')
              (lat, lon) (get stop ''tag'')"
  from Cons.IH [OF rest] obtain new where
    new: "self' = self\<lparr>bus_stops := (bus_stops self @ [?b]) @ new\<rparr>"
      "list_all2 (built_from conv (name self)) rest new"
    by auto
  have "built_from conv (name self) stop ?b"
    using lat lon by (simp add: built_from_def BusStop_init_def)
  with new show ?case
    by (intro exI [of _ "?b # new"]) simp
qed

lemma stops_loop_error:
  "stops_loop conv stops st = Inl e \<Longrightarrow> (\<forall>m. e \<noteq> NoRouteError m) \<and> (\<forall>m. e \<noteq> IndexError m)
     \<and> e \<noteq> TypeError ''NoneType object is not subscriptable''"
proof (induction stops arbitrary: st)
  case Nil
  then show ?case by simp
next
  case (Cons stop rest)
  obtain self previous where st: "st = (self, previous)" by (cases st)
  from Cons.prems Cons.IH show ?case unfolding st
    by (auto split: sum.splits dest!: float_py_error)
qed

subsection \<open>What a run of the loops changes\<close>

lemma assigned_after_Nil: "assigned_after self [] self"
  by (simp add: assigned_after_def)

lemma assigned_after_trans:
  "assigned_after a ds b \<Longrightarrow> assigned_after b es c \<Longrightarrow> assigned_after a (ds @ es) c"
  unfolding assigned_after_def by (simp only: set_append bex_Un) blast

lemma assigned_after_bus_stops:
  "assigned_after (self\<lparr>bus_stops := bs\<rparr>) ds self' = assigned_after self ds self'"
  by (simp add: assigned_after_def)

lemma direction_body_frame:
  assumes "direction_body direction (self, stop) = Inr (self', stop')"
  shows "bus_stops self' = bus_stops self \<and> name self' = name self
         \<and> number self' = number self \<and> stop' = stop"
  using assms by (elim direction_body_Inr) (simp split: if_splits)

lemma direction_body_in_full:
  assumes "direction_body direction (self, stop) = Inr (self', stop')"
    and "directional_in_full self"
  shows "directional_in_full self'"
  using assms(1)
proof (rule direction_body_Inr)
  fix c found
  assume found: "tag_loop stop (bus_stops self) (findall ''stop'' direction) [] = Inr found"
    and self': "self' = (if c = CHR ''N'' then self\<lparr>north_stops := Some found\<rparr>
                  else if c = CHR ''E'' then self\<lparr>east_stops := Some found\<rparr>
                  else if c = CHR ''S'' then self\<lparr>south_stops := Some found\<rparr>
                  else self\<lparr>west_stops := Some found\<rparr>)"
  from found have "set found \<subseteq> set (bus_stops self)" by (rule tag_loop_subset)
  with assms(2) show ?thesis
    unfolding self' directional_in_full_def by (simp add: stops_of_def)
qed

lemma direction_body_assigned:
  assumes "direction_body direction (self, stop) = Inr (self', stop')"
  shows "assigned_after self [direction] self'"
  using assms
  by (elim direction_body_Inr) (simp add: assigned_after_def west_letter_def)

lemma directions_loop_Inr:
  assumes "directions_loop ds (self, stop) = Inr (self', stop')"
  shows "bus_stops self' = bus_stops self \<and> name self' = name self
         \<and> number self' = number self \<and> stop' = stop
         \<and> (directional_in_full self \<longrightarrow> directional_in_full self')
         \<and> assigned_after self ds self'"
  using assms
proof (induction ds arbitrary: self stop)
  case Nil
  then show ?case by (simp add: assigned_after_Nil)
next
  case (Cons d ds)
  from Cons.prems obtain mid stop1 where
    body: "direction_body d (self, stop) = Inr (mid, stop1)" and
    rest: "directions_loop ds (mid, stop1) = Inr (self', stop')"
    by (auto split: sum.splits)
  note f = direction_body_frame [OF body] and r = Cons.IH [OF rest]
  have "assigned_after self ([d] @ ds) self'"
    using direction_body_assigned [OF body] r by (blast intro: assigned_after_trans)
  moreover have "directional_in_full self \<longrightarrow> directional_in_full self'"
    using direction_body_in_full [OF body] r by blast
  ultimately show ?case using f r by simp
qed

lemma stops_loop_in_full:
  assumes "stops_loop conv stops (self, previous) = Inr (self', stop')"
    and "directional_in_full self"
  shows "directional_in_full self'"
proof -
  from stops_loop_Inr [OF assms(1)] obtain new
    where "self' = self\<lparr>bus_stops := bus_stops self @ new\<rparr>" by blast
  with assms(2) show ?thesis by (auto simp: directional_in_full_def)
qed

lemma routes_loop_Inr:
  assumes "routes_loop conv routes (self, stop) = Inr (self', stop')"
  shows "(\<exists>new. bus_stops self' = bus_stops self @ new
            \<and> list_all2 (built_from conv (name self))
                 (concat (map (findall ''stop'') routes)) new)
         \<and> name self' = name self \<and> number self' = number self
         \<and> (directional_in_full self \<longrightarrow> directional_in_full self')
         \<and> assigned_after self (concat (map (findall ''direction'') routes)) self'"
  using assms
proof (induction routes arbitrary: self stop)
  case Nil
  then show ?case by (simp add: assigned_after_Nil)
next
  case (Cons rt routes)
  from Cons.prems obtain s1 p1 s2 p2 where
    stops: "stops_loop conv (findall ''stop'' rt) (self, stop) = Inr (s1, p1)" and
    dirs: "directions_loop (findall ''direction'' rt) (s1, p1) = Inr (s2, p2)" and
    rest: "routes_loop conv routes (s2, p2) = Inr (self', stop')"
    by (auto split: sum.splits)
  from stops_loop_Inr [OF stops] obtain new1 where
    s1: "s1 = self\<lparr>bus_stops := bus_stops self @ new1\<rparr>" and
    new1: "list_all2 (built_from conv (name self)) (findall ''stop'' rt) new1"
    by blast
  note d = directions_loop_Inr [OF dirs]
  from Cons.IH [OF rest] obtain new2 where
    new2: "bus_stops self' = bus_stops s2 @ new2"
      "list_all2 (built_from conv (name s2)) (concat (map (findall ''stop'') routes)) new2"
    and r: "name self' = name s2" "number self' = number s2"
      "directional_in_full s2 \<longrightarrow> directional_in_full self'"
      "assigned_after s2 (concat (map (findall ''direction'') routes)) self'"
    by blast
  have names: "name s2 = name self" "number s2 = number self" "bus_stops s2 = bus_stops self @ new1"
    using d s1 by simp_all
  have "bus_stops self' = bus_stops self @ (new1 @ new2)"
    using new2(1) names by simp
  moreover have "list_all2 (built_from conv (name self))
      (concat (map (findall ''stop'') (rt # routes))) (new1 @ new2)"
    using new1 new2(2) names by (simp add: list_all2_appendI)
  ultimately have "\<exists>new. bus_stops self' = bus_stops self @ new
      \<and> list_all2 (built_from conv (name self)) (concat (map (findall ''stop'') (rt # routes))) new"
    by blast
  moreover have "assigned_after self (concat (map (findall ''direction'') (rt # routes))) self'"
  proof -
    have "assigned_after self (findall ''direction'' rt) s2"
      using d unfolding s1 by (simp add: assigned_after_bus_stops)
    with r(4) show ?thesis by (simp add: assigned_after_trans)
  qed
  moreover have "directional_in_full self \<longrightarrow> directional_in_full self'"
    using stops_loop_in_full [OF stops] d r(3) by blast
  ultimately show ?case using r(1,2) names(1,2) by simp
qed

section \<open>The heading of a direction\<close>

text \<open>
  Claim C2. A direction element whose title starts with the character \<open>c\<close> puts the stops
  that the loops collect for it into exactly one attribute and leaves the rest of the
  object alone: \<open>north_stops\<close> for N, \<open>south_stops\<close> for S, \<open>east_stops\<close> for E and
  \<open>west_stops\<close> for every other character, W or not. The direction titled Unknown fills
  \<open>west_stops\<close>.
\<close>

theorem direction_goes_by_first_letter:
  assumes "get direction ''title'' = Some (c # cs)"
    and "tag_loop stop (bus_stops self) (findall ''stop'' direction) [] = Inr found"
  shows "direction_body direction (self, stop) =
     Inr (if c = CHR ''N'' then self\<lparr>north_stops := Some found\<rparr>
          else if c = CHR ''S'' then self\<lparr>south_stops := Some found\<rparr>
          else if c = CHR ''E'' then self\<lparr>east_stops := Some found\<rparr>
          else self\<lparr>west_stops := Some found\<rparr>, stop)"
  using assms by (simp add: direction_body_def)

theorem direction_goes_by_first_letter_witness:
  "get unknown_direction ''title'' = Some ''Unknown''
   \<and> tag_loop (Some stop_1002) (bus_stops dawes_stops_only) (findall ''stop'' unknown_direction) []
       = Inr [bus_stop_1002]
   \<and> direction_body unknown_direction (dawes_stops_only, Some stop_1002) =
       Inr (dawes_stops_only\<lparr>west_stops := Some [bus_stop_1002]\<rparr>, Some stop_1002)"
proof -
  have t: "get unknown_direction ''title'' = Some (CHR ''U'' # ''nknown'')"
    by (simp add: get_def unknown_direction_def)
  have l: "tag_loop (Some stop_1002) (bus_stops dawes_stops_only)
             (findall ''stop'' unknown_direction) [] = Inr [bus_stop_1002]"
    by (simp add: findall_def unknown_direction_def route_defs get_def stop_1002_def)
  from direction_goes_by_first_letter [OF t l] t l show ?thesis by simp
qed

section \<open>The constructed route\<close>

lemma BusRoute_parse_Inr:
  assumes "BusRoute_parse conv route_no doc = Inr r"
  obtains first title stop where "child doc 0 = Inr first" and "attrib first ''title'' = Some title"
    and "routes_loop conv (findall ''route'' doc)
           (\<lparr>number = route_no, bus_stops = [], name = title,
             north_stops = None, south_stops = None,
             east_stops = None, west_stops = None\<rparr>, None) = Inr (r, stop)"
  using assms
  by (auto simp: BusRoute_parse_def getitem_def split: sum.splits option.splits error.splits)

text \<open>
  Claim C4. When the constructor returns a route, its full collection has one entry per
  \<open>stop\<close> child of the \<open>route\<close> children of the root, in document order, and each entry is
  built from its element: the name of the route, \<open>stopId\<close>, \<open>title\<close>, the floats converted
  from \<open>lat\<close> and \<open>lon\<close>, and \<open>tag\<close>. For the feed of route 23 these are the two stops.
\<close>

theorem full_collection_follows_feed:
  assumes "BusRoute_parse conv route_no doc = Inr r"
  shows "length (bus_stops r) = length (stop_elements doc)
         \<and> list_all2 (built_from conv (name r)) (stop_elements doc) (bus_stops r)"
proof -
  from assms obtain first title stop where
    "routes_loop conv (findall ''route'' doc)
           (\<lparr>number = route_no, bus_stops = [], name = title,
             north_stops = None, south_stops = None,
             east_stops = None, west_stops = None\<rparr>, None) = Inr (r, stop)"
    by (rule BusRoute_parse_Inr)
  from routes_loop_Inr [OF this]
  have "list_all2 (built_from conv (name r)) (stop_elements doc) (bus_stops r)"
    by (auto simp: stop_elements_def)
  then show ?thesis by (simp add: list_all2_lengthD)
qed

theorem full_collection_follows_feed_witness:
  "BusRoute_parse Some 23 dawes_feed = Inr dawes_route
   \<and> stop_elements dawes_feed = [stop_1001, stop_1002]
   \<and> length (bus_stops dawes_route) = 2
   \<and> list_all2 (built_from Some ''23-Dawes'') [stop_1001, stop_1002] (bus_stops dawes_route)"
  using full_collection_follows_feed [OF dawes_parse] dawes_parse
  by (simp add: dawes_stop_elements) (simp add: route_defs)

text \<open>
  Claim C5. Every stop of the north, south, east or west collection of a constructed route
  is an element of its full collection. Stops are compared by value here; the constructor
  appends the very objects of the full collection.
\<close>

theorem directional_stops_in_full_collection:
  assumes "BusRoute_parse conv route_no doc = Inr r"
  shows "stops_of (north_stops r) \<union> stops_of (south_stops r)
           \<union> stops_of (east_stops r) \<union> stops_of (west_stops r) \<subseteq> set (bus_stops r)"
proof -
  from assms obtain first title stop where
    "routes_loop conv (findall ''route'' doc)
           (\<lparr>number = route_no, bus_stops = [], name = title,
             north_stops = None, south_stops = None,
             east_stops = None, west_stops = None\<rparr>, None) = Inr (r, stop)"
    by (rule BusRoute_parse_Inr)
  from routes_loop_Inr [OF this] have "directional_in_full r"
    by (simp add: directional_in_full_def stops_of_def)
  then show ?thesis by (simp add: directional_in_full_def)
qed

theorem directional_stops_in_full_collection_witness:
  "BusRoute_parse Some 23 dawes_feed = Inr dawes_route
   \<and> stops_of (north_stops dawes_route) = {bus_stop_1002}
   \<and> {bus_stop_1002} \<subseteq> set (bus_stops dawes_route)"
  using directional_stops_in_full_collection [OF dawes_parse] dawes_parse
  by (simp add: stops_of_def dawes_route_def dawes_stops_only_def)

lemma getattr_absent: "(getattr a slot = Inl (AttributeError a)) = (slot = None)"
  by (simp add: getattr_def split: option.splits)

text \<open>
  Claim C9. On a constructed route a directional attribute exists exactly when some
  direction element of the feed has a title starting with its letter (for \<open>west_stops\<close>:
  with any character other than N, S and E), and reading an attribute fails with
  \<open>AttributeError\<close> exactly when it does not exist. The route of the feed of route 23 has
  \<open>north_stops\<close> and none of the other three.
\<close>

theorem directional_attribute_exists_iff:
  assumes "BusRoute_parse conv route_no doc = Inr r"
  shows "(north_stops r \<noteq> None) =
           (\<exists>d \<in> set (direction_elements doc). orientation_of d = Some CHR ''N'')
       \<and> (south_stops r \<noteq> None) =
           (\<exists>d \<in> set (direction_elements doc). orientation_of d = Some CHR ''S'')
       \<and> (east_stops r \<noteq> None) =
           (\<exists>d \<in> set (direction_elements doc). orientation_of d = Some CHR ''E'')
       \<and> (west_stops r \<noteq> None) =
           (\<exists>d \<in> set (direction_elements doc). \<exists>c. orientation_of d = Some c \<and> west_letter c)
       \<and> (north_stops r = None) =
           (getattr ''north_stops'' (north_stops r) = Inl (AttributeError ''north_stops''))
       \<and> (south_stops r = None) =
           (getattr ''south_stops'' (south_stops r) = Inl (AttributeError ''south_stops''))
       \<and> (east_stops r = None) =
           (getattr ''east_stops'' (east_stops r) = Inl (AttributeError ''east_stops''))
       \<and> (west_stops r = None) =
           (getattr ''west_stops'' (west_stops r) = Inl (AttributeError ''west_stops''))"
proof -
  from assms obtain first title stop where
    "routes_loop conv (findall ''route'' doc)
           (\<lparr>number = route_no, bus_stops = [], name = title,
             north_stops = None, south_stops = None,
             east_stops = None, west_stops = None\<rparr>, None) = Inr (r, stop)"
    by (rule BusRoute_parse_Inr)
  from routes_loop_Inr [OF this]
  have "assigned_after \<lparr>number = route_no, bus_stops = [], name = title,
             north_stops = None, south_stops = None,
             east_stops = None, west_stops = None\<rparr> (direction_elements doc) r"
    by (simp add: direction_elements_def)
  then have "(north_stops r \<noteq> None) =
           (\<exists>d \<in> set (direction_elements doc). orientation_of d = Some CHR ''N'')"
    and "(south_stops r \<noteq> None) =
           (\<exists>d \<in> set (direction_elements doc). orientation_of d = Some CHR ''S'')"
    and "(east_stops r \<noteq> None) =
           (\<exists>d \<in> set (direction_elements doc). orientation_of d = Some CHR ''E'')"
    and "(west_stops r \<noteq> None) =
           (\<exists>d \<in> set (direction_elements doc). \<exists>c. orientation_of d = Some c \<and> west_letter c)"
    by (simp_all add: assigned_after_def)
  then show ?thesis by (simp add: getattr_absent)
qed

theorem directional_attribute_exists_iff_witness:
  "BusRoute_parse Some 23 dawes_feed = Inr dawes_route
   \<and> direction_elements dawes_feed = [north_direction]
   \<and> orientation_of north_direction = Some CHR ''N''
   \<and> north_stops dawes_route = Some [bus_stop_1002]
   \<and> getattr ''south_stops'' (south_stops dawes_route) = Inl (AttributeError ''south_stops'')
   \<and> getattr ''east_stops'' (east_stops dawes_route) = Inl (AttributeError ''east_stops'')
   \<and> getattr ''west_stops'' (west_stops dawes_route) = Inl (AttributeError ''west_stops'')"
proof -
  have o: "orientation_of north_direction = Some CHR ''N''"
    by (simp add: orientation_of_def get_def north_direction_def)
  have n: "north_stops dawes_route = Some [bus_stop_1002]"
    by (simp add: dawes_route_def)
  from directional_attribute_exists_iff [OF dawes_parse] o
  have "south_stops dawes_route = None" "east_stops dawes_route = None"
    "west_stops dawes_route = None"
    by (simp_all add: dawes_direction_elements west_letter_def)
  with directional_attribute_exists_iff [OF dawes_parse] dawes_parse dawes_direction_elements o n
  show ?thesis by simp
qed

section \<open>When the constructor returns\<close>

text \<open>
  The constructor returns a route when the first child of the root has a title, the \<open>lat\<close>
  and \<open>lon\<close> of every stop element convert to floats and every direction element has a
  non-empty title. The variable \<open>stop\<close> is bound whenever the full collection is not
  empty, so that the comparison in the innermost loop never reads it unbound.
\<close>

lemma stops_loop_returns:
  assumes "\<forall>s \<in> set stops. \<exists>lat lon. float_py conv (get s ''lat'') = Inr lat
             \<and> float_py conv (get s ''lon'') = Inr lon"
  shows "\<exists>self' stop'. stops_loop conv stops (self, previous) = Inr (self', stop')
           \<and> (stops \<noteq> [] \<or> previous \<noteq> None \<or> bus_stops self = [] \<longrightarrow>
                stop' \<noteq> None \<or> bus_stops self' = [])"
  using assms
proof (induction stops arbitrary: self previous)
  case Nil
  then show ?case by auto
next
  case (Cons stop rest)
  from Cons.prems obtain lat lon where
    c: "float_py conv (get stop ''lat'') = Inr lat" "float_py conv (get stop ''lon'') = Inr lon"
    by auto
  let ?self = "self\<lparr>bus_stops := bus_stops self @
                [BusStop_init (name self) (get stop ''stopId'') (get stop ''title'')
                   (lat, lon) (get stop ''tag'')]\<rparr>"
  from Cons.prems have "\<forall>s \<in> set rest. \<exists>lat lon. float_py conv (get s ''lat'') = Inr lat
             \<and> float_py conv (get s ''lon'') = Inr lon" by simp
  from Cons.IH [OF this, of ?self "Some stop"] obtain self' stop' where
    "stops_loop conv rest (?self, Some stop) = Inr (self', stop')"
    "stop' \<noteq> None \<or> bus_stops self' = []" by auto
  with c show ?case by simp
qed

lemma direction_body_returns:
  assumes "orientation_of direction \<noteq> None" and "stop \<noteq> None \<or> bus_stops self = []"
  shows "\<exists>self'. direction_body direction (self, stop) = Inr (self', stop)
           \<and> bus_stops self' = bus_stops self"
proof -
  from assms(1) obtain c cs where t: "get direction ''title'' = Some (c # cs)"
    by (auto simp: orientation_of_def split: option.splits list.splits)
  from assms(2) obtain found where
    "tag_loop stop (bus_stops self) (findall ''stop'' direction) [] = Inr found"
    by (cases stop) (auto simp: tag_loop_None tag_loop_Some)
  with t show ?thesis by (simp add: direction_body_def)
qed

lemma directions_loop_returns:
  assumes "\<forall>d \<in> set ds. orientation_of d \<noteq> None" and "stop \<noteq> None \<or> bus_stops self = []"
  shows "\<exists>self'. directions_loop ds (self, stop) = Inr (self', stop)
           \<and> bus_stops self' = bus_stops self"
  using assms
proof (induction ds arbitrary: self)
  case Nil
  then show ?case by simp
next
  case (Cons d ds)
  from Cons.prems have "orientation_of d \<noteq> None" by simp
  from direction_body_returns [OF this Cons.prems(2)] obtain mid where
    mid: "direction_body d (self, stop) = Inr (mid, stop)" "bus_stops mid = bus_stops self"
    by blast
  with Cons.prems have "\<forall>d \<in> set ds. orientation_of d \<noteq> None"
    "stop \<noteq> None \<or> bus_stops mid = []" by simp_all
  from Cons.IH [OF this] mid show ?case by auto
qed

lemma routes_loop_returns:
  assumes "\<forall>s \<in> set (concat (map (findall ''stop'') routes)).
             \<exists>lat lon. float_py conv (get s ''lat'') = Inr lat
               \<and> float_py conv (get s ''lon'') = Inr lon"
    and "\<forall>d \<in> set (concat (map (findall ''direction'') routes)). orientation_of d \<noteq> None"
    and "stop \<noteq> None \<or> bus_stops self = []"
  shows "\<exists>st. routes_loop conv routes (self, stop) = Inr st"
  using assms
proof (induction routes arbitrary: self stop)
  case Nil
  then show ?case by simp
next
  case (Cons rt routes)
  from Cons.prems(1) have "\<forall>s \<in> set (findall ''stop'' rt).
      \<exists>lat lon. float_py conv (get s ''lat'') = Inr lat \<and> float_py conv (get s ''lon'') = Inr lon"
    by simp
  from stops_loop_returns [OF this, of self stop] Cons.prems(3) obtain s1 p1 where
    s1: "stops_loop conv (findall ''stop'' rt) (self, stop) = Inr (s1, p1)"
      "p1 \<noteq> None \<or> bus_stops s1 = []"
    by blast
  from Cons.prems(2) have "\<forall>d \<in> set (findall ''direction'' rt). orientation_of d \<noteq> None"
    by simp
  from directions_loop_returns [OF this s1(2)] obtain s2 where
    s2: "directions_loop (findall ''direction'' rt) (s1, p1) = Inr (s2, p1)"
      "bus_stops s2 = bus_stops s1"
    by blast
  have "\<exists>st. routes_loop conv routes (s2, p1) = Inr st"
    using Cons.prems(1,2) s1(2) s2(2) by (intro Cons.IH) simp_all
  with s1 s2 show ?case by simp
qed

lemma BusRoute_parse_returns:
  assumes "child doc 0 = Inr first" and "attrib first ''title'' = Some title"
    and "\<forall>s \<in> set (stop_elements doc).
           \<exists>lat lon. float_py conv (get s ''lat'') = Inr lat
             \<and> float_py conv (get s ''lon'') = Inr lon"
    and "\<forall>d \<in> set (direction_elements doc). orientation_of d \<noteq> None"
  shows "\<exists>r. BusRoute_parse conv route_no doc = Inr r"
proof -
  from routes_loop_returns [of "findall ''route'' doc" conv None
      "\<lparr>number = route_no, bus_stops = [], name = title,
        north_stops = None, south_stops = None, east_stops = None, west_stops = None\<rparr>"]
    assms(3,4)
  obtain st where "routes_loop conv (findall ''route'' doc)
      (\<lparr>number = route_no, bus_stops = [], name = title,
        north_stops = None, south_stops = None, east_stops = None, west_stops = None\<rparr>, None)
      = Inr st"
    by (auto simp: stop_elements_def direction_elements_def)
  with assms(1,2) show ?thesis
    by (cases st) (simp add: BusRoute_parse_def getitem_def)
qed

section \<open>Directions without a title\<close>

lemma direction_body_error:
  assumes "direction_body direction st = Inl e"
  shows "\<forall>m. e \<noteq> NoRouteError m"
proof (cases "orientation_of direction")
  case None
  from direction_body_untitled [OF None, of st] assms show ?thesis by auto
next
  case (Some c)
  from direction_body_titled [OF Some assms] show ?thesis by simp
qed

lemma directions_loop_error:
  "directions_loop ds st = Inl e \<Longrightarrow> \<forall>m. e \<noteq> NoRouteError m"
  by (induction ds arbitrary: st) (auto split: sum.splits dest: direction_body_error)

lemma directions_loop_untitled:
  assumes "d \<in> set ds" and "orientation_of d = None"
  shows "\<exists>e. directions_loop ds st = Inl e"
  using assms(1)
proof (induction ds arbitrary: st)
  case Nil
  then show ?case by simp
next
  case (Cons a ds)
  show ?case
  proof (cases "direction_body a st")
    case (Inl e)
    then show ?thesis by simp
  next
    case (Inr st')
    with direction_body_untitled [OF assms(2), of st] have "a \<noteq> d" by auto
    with Cons.prems have "d \<in> set ds" by simp
    from Cons.IH [OF this, of st'] Inr show ?thesis by simp
  qed
qed

lemma directions_loop_titled:
  assumes "\<forall>d \<in> set ds. orientation_of d \<noteq> None" and "directions_loop ds st = Inl e"
  shows "e = UnboundLocalError ''stop''"
  using assms
proof (induction ds arbitrary: st)
  case Nil
  then show ?case by simp
next
  case (Cons a ds)
  from Cons.prems(1) obtain c where c: "orientation_of a = Some c" by auto
  show ?case
  proof (cases "direction_body a st")
    case (Inl e')
    with Cons.prems(2) have "e' = e" by simp
    with direction_body_titled [OF c] Inl show ?thesis by simp
  next
    case (Inr st')
    with Cons.prems have "directions_loop ds st' = Inl e" "\<forall>d \<in> set ds. orientation_of d \<noteq> None"
      by simp_all
    then show ?thesis using Cons.IH by blast
  qed
qed

lemma routes_loop_error:
  "routes_loop conv routes st = Inl e \<Longrightarrow> \<forall>m. e \<noteq> NoRouteError m"
proof (induction routes arbitrary: st)
  case Nil
  then show ?case by simp
next
  case (Cons rt routes)
  then show ?case
    by (auto split: sum.splits dest: stops_loop_error directions_loop_error)
qed

lemma routes_loop_untitled:
  assumes "d \<in> set (concat (map (findall ''direction'') routes))" and "orientation_of d = None"
  shows "\<exists>e. routes_loop conv routes st = Inl e"
  using assms(1)
proof (induction routes arbitrary: st)
  case Nil
  then show ?case by simp
next
  case (Cons rt routes)
  show ?case
  proof (cases "stops_loop conv (findall ''stop'' rt) st")
    case (Inl e)
    then show ?thesis by simp
  next
    case stops: (Inr st1)
    show ?thesis
    proof (cases "directions_loop (findall ''direction'' rt) st1")
      case (Inl e)
      with stops show ?thesis by simp
    next
      case (Inr st2)
      with directions_loop_untitled [OF _ assms(2), of "findall ''direction'' rt" st1]
      have "d \<notin> set (findall ''direction'' rt)" by auto
      with Cons.prems have "d \<in> set (concat (map (findall ''direction'') routes))" by simp
      from Cons.IH [OF this, of st2] stops Inr show ?thesis by simp
    qed
  qed
qed

lemma routes_loop_titled:
  assumes "\<forall>d \<in> set (concat (map (findall ''direction'') routes)). orientation_of d \<noteq> None"
    and "routes_loop conv routes st = Inl e"
  shows "e \<noteq> TypeError ''NoneType object is not subscriptable''
         \<and> e \<noteq> IndexError ''string index out of range''"
  using assms
proof (induction routes arbitrary: st)
  case Nil
  then show ?case by simp
next
  case (Cons rt routes)
  from Cons.prems(1) have here: "\<forall>d \<in> set (findall ''direction'' rt). orientation_of d \<noteq> None"
    and later: "\<forall>d \<in> set (concat (map (findall ''direction'') routes)). orientation_of d \<noteq> None"
    by simp_all
  show ?case
  proof (cases "stops_loop conv (findall ''stop'' rt) st")
    case (Inl e')
    with Cons.prems(2) have "e' = e" by simp
    with stops_loop_error [OF Inl] show ?thesis by simp
  next
    case stops: (Inr st1)
    show ?thesis
    proof (cases "directions_loop (findall ''direction'' rt) st1")
      case (Inl e')
      with Cons.prems(2) stops have "e' = e" by simp
      with directions_loop_titled [OF here Inl] show ?thesis by simp
    next
      case (Inr st2)
      with Cons.prems(2) stops have "routes_loop conv routes st2 = Inl e" by simp
      with Cons.IH [OF later] show ?thesis by blast
    qed
  qed
qed

lemma BusRoute_parse_Inl:
  assumes "BusRoute_parse conv route_no doc = Inl e"
  shows "e = IndexError ''child index out of range'' \<or> e = NameError ''route_name''
         \<or> (\<exists>st. routes_loop conv (findall ''route'' doc) st = Inl e)"
  using assms
  by (auto simp: BusRoute_parse_def child_def getitem_def title_handler_def
      split: sum.splits option.splits if_splits)

lemma orientation_of_None:
  "(orientation_of d = None) = (get d ''title'' = None \<or> get d ''title'' = Some [])"
  by (simp add: orientation_of_def split: option.splits list.splits)

text \<open>
  Claim C10. The direction elements are the \<open>direction\<close> children of the \<open>route\<close> children
  of the root, the ones the constructor visits. For a direction element without a title
  or with the empty title the loop body fails wherever it is run, with \<open>TypeError\<close> for
  the missing and \<open>IndexError\<close> for the empty title, and a feed that has such an element
  never yields a route: the constructor ends in an error that is not \<open>NoRouteError\<close>. On a
  feed whose direction elements all have a non-empty title the constructor never ends in
  either of these two errors.
\<close>

theorem untitled_direction_fails:
  assumes "d \<in> set (direction_elements bad)"
    and "get d ''title'' = None \<or> get d ''title'' = Some []"
    and "\<forall>d \<in> set (direction_elements good). \<exists>c cs. get d ''title'' = Some (c # cs)"
  shows "direction_body d st =
           Inl (if get d ''title'' = None then TypeError ''NoneType object is not subscriptable''
                else IndexError ''string index out of range'')
       \<and> (\<exists>e. BusRoute_parse conv route_no bad = Inl e \<and> (\<forall>m. e \<noteq> NoRouteError m))
       \<and> BusRoute_parse conv route_no good \<noteq> Inl (TypeError ''NoneType object is not subscriptable'')
       \<and> BusRoute_parse conv route_no good \<noteq> Inl (IndexError ''string index out of range'')"
proof -
  have body: "direction_body d st =
           Inl (if get d ''title'' = None then TypeError ''NoneType object is not subscriptable''
                else IndexError ''string index out of range'')"
    using assms(2) by (cases st) (auto simp: direction_body_def)
  have none: "orientation_of d = None"
    using assms(2) by (simp add: orientation_of_None)
  have bad: "\<exists>e. BusRoute_parse conv route_no bad = Inl e \<and> (\<forall>m. e \<noteq> NoRouteError m)"
  proof (cases "BusRoute_parse conv route_no bad")
    case (Inl e)
    from BusRoute_parse_Inl [OF Inl] have "\<forall>m. e \<noteq> NoRouteError m"
      by (auto dest: routes_loop_error)
    with Inl show ?thesis by simp
  next
    case (Inr r)
    then obtain first title stop where
      "routes_loop conv (findall ''route'' bad)
           (\<lparr>number = route_no, bus_stops = [], name = title,
             north_stops = None, south_stops = None,
             east_stops = None, west_stops = None\<rparr>, None) = Inr (r, stop)"
      by (rule BusRoute_parse_Inr)
    moreover from assms(1) none
    have "\<exists>e. routes_loop conv (findall ''route'' bad)
           (\<lparr>number = route_no, bus_stops = [], name = title,
             north_stops = None, south_stops = None,
             east_stops = None, west_stops = None\<rparr>, None) = Inl e"
      unfolding direction_elements_def by (rule routes_loop_untitled)
    ultimately show ?thesis by simp
  qed
  have titled: "\<forall>d \<in> set (concat (map (findall ''direction'') (findall ''route'' good))).
      orientation_of d \<noteq> None"
  proof
    fix x
    assume "x \<in> set (concat (map (findall ''direction'') (findall ''route'' good)))"
    then have "x \<in> set (direction_elements good)" by (simp add: direction_elements_def)
    with assms(3) obtain c cs where "get x ''title'' = Some (c # cs)" by blast
    then show "orientation_of x \<noteq> None" by (simp add: orientation_of_def)
  qed
  have good: "e \<noteq> TypeError ''NoneType object is not subscriptable''
         \<and> e \<noteq> IndexError ''string index out of range''"
    if "BusRoute_parse conv route_no good = Inl e" for e
    using BusRoute_parse_Inl [OF that] routes_loop_titled [OF titled] by auto
  from body bad good show ?thesis by blast
qed

theorem untitled_direction_fails_witness:
  "direction_elements untitled_feed = [Element ''direction'' [''tag'' \<mapsto> ''23_0_23''] None []]
   \<and> get (Element ''direction'' [''tag'' \<mapsto> ''23_0_23''] None []) ''title'' = None
   \<and> BusRoute_parse Some 23 untitled_feed = Inl (TypeError ''NoneType object is not subscriptable'')
   \<and> direction_elements dawes_feed = [north_direction]
   \<and> get north_direction ''title'' = Some ''North - 23 Dawes towards St Clair''
   \<and> BusRoute_parse Some 23 dawes_feed = Inr dawes_route"
proof -
  let ?d = "Element ''direction'' [''tag'' \<mapsto> ''23_0_23''] None []"
  have ds: "direction_elements untitled_feed = [?d]"
    by (simp add: direction_elements_def findall_def feed_defs)
  have mem: "?d \<in> set (direction_elements untitled_feed)"
    unfolding ds by simp
  have t: "get ?d ''title'' = None" by (simp add: get_def)
  then have t': "get ?d ''title'' = None \<or> get ?d ''title'' = Some []" by simp
  have n: "get north_direction ''title'' = Some ''North - 23 Dawes towards St Clair''"
    by (simp add: get_def north_direction_def)
  have g: "\<forall>d \<in> set (direction_elements dawes_feed). \<exists>c cs. get d ''title'' = Some (c # cs)"
    by (simp add: dawes_direction_elements n)
  have run: "BusRoute_parse Some 23 untitled_feed
               = Inl (TypeError ''NoneType object is not subscriptable'')"
    by (simp add: BusRoute_parse_def feed_defs elem_defs float_py_def BusStop_init_def
        direction_body_def)
  note untitled_direction_fails [OF mem t' g,
      where st = "(dawes_stops_only, None)" and conv = Some and route_no = 23]
  with ds t n run dawes_parse dawes_direction_elements show ?thesis by simp
qed

end
